theory Spec2Isabelle
  imports Main
begin

section \<open>clop: selecting files by glob and tag, and copying them to the clipboard\<close>

text \<open>
  A shallow embedding of \<^verbatim>\<open>src/clop.js\<close>. The program is a single \<^verbatim>\<open>main\<close>
  function that calls into Node's \<^verbatim>\<open>fs\<close> and \<^verbatim>\<open>path\<close> modules, the built-in
  \<^verbatim>\<open>RegExp\<close>, and the packages \<^verbatim>\<open>glob\<close>, \<^verbatim>\<open>ignore\<close>, \<^verbatim>\<open>clipboardy\<close> and
  \<^verbatim>\<open>yargs\<close>. None of these is part of the repository, so the embedding of
  \<^verbatim>\<open>main\<close> takes them as the fields of a record (the \<open>world\<close> below); what the code
  itself does with their answers is written out in full.
\<close>

subsection \<open>Byte-size formatting\<close>

text \<open>
  \<^verbatim>\<open>
  const formatBytes = (bytes) => {
      if (bytes === 0) return '0B';
      const k = 1024;
      const sizes = ['b', 'k', 'M', 'G', 'T'];
      const i = Math.floor(Math.log(bytes) / Math.log(k));
      return parseFloat((bytes / Math.pow(k, i)).toFixed(2)) + sizes[i];
  };
  \<close>
  The argument is a file size or a sum of file sizes, a natural number. \<open>log1024\<close> is
  the exact integer logarithm. The source computes the quotient of two floating-point
  logarithms, which is the exact value rounded to a double: just below \<^verbatim>\<open>1024^5\<close>,
  from \<^verbatim>\<open>1024^5 - 3\<close> bytes on, the rounded quotient is already 5, and
  \<open>size_index\<close> follows the source there. \<open>toFixed2\<close> gives the number of
  hundredths that \<^verbatim>\<open>toFixed(2)\<close> prints (nearest, the larger one on a tie; the
  division by a power of 1024 is exact), and \<open>show_hundredths\<close> is the text of
  \<^verbatim>\<open>parseFloat\<close> of that, which drops trailing zeros of the fraction. An index
  past the end of \<^verbatim>\<open>sizes\<close> reads \<^verbatim>\<open>undefined\<close>, and a number plus
  \<^verbatim>\<open>undefined\<close> is \<^verbatim>\<open>NaN\<close>, which the two template strings that use the result
  print as the word.
\<close>

definition sizes :: "string list" where
  "sizes = [''b'', ''k'', ''M'', ''G'', ''T'']"

fun log1024 :: "nat \<Rightarrow> nat" where
  "log1024 n = (if n < 1024 then 0 else Suc (log1024 (n div 1024)))"

definition toFixed2 :: "nat \<Rightarrow> nat \<Rightarrow> nat" where
  "toFixed2 bytes d = (2 * 100 * bytes + d) div (2 * d)"

definition digit :: "nat \<Rightarrow> char" where
  "digit n = ''0123456789'' ! n"

fun show_nat :: "nat \<Rightarrow> string" where
  "show_nat n = (if n < 10 then [digit n] else show_nat (n div 10) @ [digit (n mod 10)])"

definition show_hundredths :: "nat \<Rightarrow> string" where
  "show_hundredths h =
     show_nat (h div 100) @
       (if h mod 100 = 0 then ''''
        else if h mod 10 = 0 then CHR ''.'' # [digit (h mod 100 div 10)]
        else CHR ''.'' # [digit (h mod 100 div 10), digit (h mod 10)])"

definition size_index :: "nat \<Rightarrow> nat" where
  "size_index bytes = (if 1024 ^ 5 - 3 \<le> bytes then max 5 (log1024 bytes) else log1024 bytes)"

definition formatBytes :: "nat \<Rightarrow> string" where
  "formatBytes bytes =
     (if bytes = 0 then ''0B''
      else let i = size_index bytes
           in if i < length sizes
              then show_hundredths (toFixed2 bytes (1024 ^ i)) @ sizes ! i
              else ''NaN'')"

subsection \<open>JavaScript values, errors and the insertion-ordered Set\<close>

text \<open>
  The values \<^verbatim>\<open>main\<close> reads from the parsed command line: \<^verbatim>\<open>undefined\<close>, a
  boolean, a string, or an array (its elements already shown as strings, which is what
  \<^verbatim>\<open>.map(String)\<close> makes of them). \<open>truthy\<close> is JavaScript's conversion to a
  boolean, as \<^verbatim>\<open>!x\<close> and \<^verbatim>\<open>x || y\<close> use it.
\<close>

datatype jsval = JUndefined | JBool bool | JStr string | JArr "string list"

fun truthy :: "jsval \<Rightarrow> bool" where
  "truthy JUndefined = False"
| "truthy (JBool b) = b"
| "truthy (JStr s) = (s \<noteq> [])"
| "truthy (JArr xs) = True"

text \<open>
  The exceptions the code can meet, each caught by one of its two handlers: a failed
  file-system call, a pattern the \<^verbatim>\<open>RegExp\<close> constructor rejects, a call of a
  method a value does not have, a clipboard that cannot be written. \<open>Unmodelled\<close> is not
  an exception of JavaScript: the model of \<^verbatim>\<open>RegExp\<close> further down returns it for
  pattern syntax that it does not cover.
\<close>

datatype js_error =
  ENOENT | EACCES | EISDIR | SyntaxError | TypeError | ClipboardError | Unmodelled

text \<open>
  The object \<^verbatim>\<open>argv\<close> that yargs returns, as a map from property names to
  values; reading a property the object does not have gives \<^verbatim>\<open>undefined\<close>.
\<close>

type_synonym argv = "string \<rightharpoonup> jsval"

definition property :: "argv \<Rightarrow> string \<Rightarrow> jsval" where
  "property argv k = (case argv k of None \<Rightarrow> JUndefined | Some v \<Rightarrow> v)"

text \<open>
  The options \<^verbatim>\<open>main\<close> declares to yargs are \<^verbatim>\<open>not\<close> (array, default
  \<^verbatim>\<open>[]\<close>), \<^verbatim>\<open>nogitignore\<close> and \<^verbatim>\<open>verbose\<close> (boolean, default false); the
  positional arguments arrive under \<^verbatim>\<open>_\<close>. \<open>yargs_argv\<close> is the object for a
  command line that uses these options only: it has exactly these properties.
\<close>

definition yargs_argv :: "string list \<Rightarrow> string list \<Rightarrow> bool \<Rightarrow> bool \<Rightarrow> argv" where
  "yargs_argv positional nots nogitignore verbose =
     [''_'' \<mapsto> JArr positional, ''not'' \<mapsto> JArr nots,
      ''nogitignore'' \<mapsto> JBool nogitignore, ''verbose'' \<mapsto> JBool verbose]"

text \<open>
  \<^verbatim>\<open>x.map(String)\<close>: an array gives its elements; any other value of \<open>jsval\<close> has no
  \<^verbatim>\<open>map\<close> method and the call throws.
\<close>

fun map_String :: "jsval \<Rightarrow> js_error + string list" where
  "map_String (JArr xs) = Inr xs"
| "map_String v = Inl TypeError"

text \<open>
  A JavaScript \<^verbatim>\<open>Set\<close> of strings iterates in insertion order and holds each value
  once: a list without duplicates, \<^verbatim>\<open>add\<close> appending a value that is not yet there.
\<close>

definition Set_add :: "'a \<Rightarrow> 'a list \<Rightarrow> 'a list" where
  "Set_add x s = (if x \<in> set s then s else s @ [x])"

definition Set_from :: "'a list \<Rightarrow> 'a list" where
  "Set_from xs = fold Set_add xs []"

definition Set_delete :: "'a \<Rightarrow> 'a list \<Rightarrow> 'a list" where
  "Set_delete x s = removeAll x s"

subsection \<open>The world the program runs in\<close>

text \<open>
  Everything \<^verbatim>\<open>main\<close> asks of its environment, as functions of one snapshot:
  \<^item> \<open>cwd\<close>, \<open>path_join\<close>, \<open>path_relative\<close>: \<^verbatim>\<open>process.cwd()\<close> and Node's
    \<^verbatim>\<open>path\<close> module;
  \<^item> \<open>existsSync\<close>, \<open>readFileSync\<close> (with encoding \<^verbatim>\<open>'utf8'\<close>), \<open>statSync_size\<close>
    (the \<^verbatim>\<open>size\<close> of \<^verbatim>\<open>fs.statSync\<close>): Node's \<^verbatim>\<open>fs\<close>; a call that throws
    returns \<open>Inl\<close>;
  \<^item> \<open>glob_sync\<close>: \<^verbatim>\<open>glob.sync(pattern, options)\<close>, the paths in the order the
    enumeration returns them;
  \<^item> \<open>ignore_ignores\<close>: \<^verbatim>\<open>ig.ignores(path)\<close> of the \<^verbatim>\<open>ignore\<close> package, for
    the matcher \<^verbatim>\<open>ig\<close> that received the given strings through \<^verbatim>\<open>ig.add\<close>, in
    that order;
  \<^item> \<open>RegExp_new\<close>, \<open>RegExp_test\<close>: the \<^verbatim>\<open>RegExp\<close> constructor (pattern, flags),
    which throws on an invalid pattern, and \<^verbatim>\<open>test\<close>;
  \<^item> \<open>clipboardy_write\<close>: \<^verbatim>\<open>clipboardy.write\<close>, \<open>Some\<close> error when the promise
    is rejected.
\<close>

record glob_options =
  nodir :: bool
  dot :: bool
  ignore :: "string option"

record 'rx world =
  cwd :: string
  path_join :: "string \<Rightarrow> string \<Rightarrow> string"
  path_relative :: "string \<Rightarrow> string \<Rightarrow> string"
  existsSync :: "string \<Rightarrow> bool"
  readFileSync :: "string \<Rightarrow> js_error + string"
  statSync_size :: "string \<Rightarrow> js_error + nat"
  glob_sync :: "string \<Rightarrow> glob_options \<Rightarrow> string list"
  ignore_ignores :: "string list \<Rightarrow> string \<Rightarrow> bool"
  RegExp_new :: "string \<Rightarrow> string \<Rightarrow> js_error + 'rx"
  RegExp_test :: "'rx \<Rightarrow> string \<Rightarrow> bool"
  clipboardy_write :: "string \<Rightarrow> js_error option"

subsection \<open>The tag test\<close>

text \<open>
  \<^verbatim>\<open>
  function fileHasTag(filePath, tag) {
      try {
          const fileContent = fs.readFileSync(filePath, 'utf8');
          const tagRegex = new RegExp(`tags:.*#${tag}`, 's');
          return tagRegex.test(fileContent);
      } catch (e) {
          return false;
      }
  }
  \<close>
  \<open>fileHasTag_try\<close> is the body of the \<^verbatim>\<open>try\<close>, which either throws or returns a
  boolean; \<open>fileHasTag\<close> adds the handler.
\<close>

definition fileHasTag_try :: "'rx world \<Rightarrow> string \<Rightarrow> string \<Rightarrow> js_error + bool" where
  "fileHasTag_try w filePath tag =
     (case readFileSync w filePath of
        Inl e \<Rightarrow> Inl e
      | Inr fileContent \<Rightarrow>
          (case RegExp_new w (''tags:.*#'' @ tag) ''s'' of
             Inl e \<Rightarrow> Inl e
           | Inr tagRegex \<Rightarrow> Inr (RegExp_test w tagRegex fileContent)))"

definition fileHasTag :: "'rx world \<Rightarrow> string \<Rightarrow> string \<Rightarrow> bool" where
  "fileHasTag w filePath tag =
     (case fileHasTag_try w filePath tag of Inl e \<Rightarrow> False | Inr b \<Rightarrow> b)"

subsection \<open>Selection\<close>

text \<open>
  \<^verbatim>\<open>p.startsWith('+')\<close>, \<^verbatim>\<open>t.substring(1)\<close>, \<^verbatim>\<open>pattern.includes('/')\<close> and
  \<^verbatim>\<open>xs.join(sep)\<close>.
\<close>

definition startsWith_plus :: "string \<Rightarrow> bool" where
  "startsWith_plus p = (case p of [] \<Rightarrow> False | c # cs \<Rightarrow> c = CHR ''+'')"

definition substring1 :: "string \<Rightarrow> string" where
  "substring1 t = drop 1 t"

definition includes_slash :: "string \<Rightarrow> bool" where
  "includes_slash pattern = (CHR ''/'' \<in> set pattern)"

fun join :: "string \<Rightarrow> string list \<Rightarrow> string" where
  "join sep [] = []"
| "join sep [x] = x"
| "join sep (x # y # ys) = x @ sep @ join sep (y # ys)"

text \<open>
  The pattern handed to glob: a pattern with no \<^verbatim>\<open>/\<close> is prefixed with \<^verbatim>\<open>**/\<close>
  (lines 107-110 for inclusion, 134-139 for exclusion).
\<close>

definition effectivePattern :: "string \<Rightarrow> string" where
  "effectivePattern pattern =
     (if \<not> includes_slash pattern then ''**/'' @ pattern else pattern)"

text \<open>
  The ignore matcher (lines 87-96), as the list of strings added to it:
  \<^verbatim>\<open>
  const { _, not: notPatterns, ignoreGitignore, verbose } = argv;
  ...
  let ig = ignore();
  if (!ignoreGitignore) {
      const gitignorePath = path.join(process.cwd(), '.gitignore');
      if (fs.existsSync(gitignorePath)) {
          const gitignoreContent = fs.readFileSync(gitignorePath, 'utf8');
          ig.add(gitignoreContent);
      }
  }
  ig.add('node_modules');
  \<close>
  The flag is read from the property \<^verbatim>\<open>ignoreGitignore\<close> of \<^verbatim>\<open>argv\<close>.
\<close>

definition ignore_rules :: "'rx world \<Rightarrow> argv \<Rightarrow> js_error + string list" where
  "ignore_rules w argv =
     (let ignoreGitignore = property argv ''ignoreGitignore'' in
      if \<not> truthy ignoreGitignore then
        (let gitignorePath = path_join w (cwd w) ''.gitignore'' in
         if existsSync w gitignorePath then
           (case readFileSync w gitignorePath of
              Inl e \<Rightarrow> Inl e
            | Inr gitignoreContent \<Rightarrow> Inr [gitignoreContent, ''node_modules''])
         else Inr [''node_modules''])
      else Inr [''node_modules''])"

text \<open>
  Lines 98-99: the files the tag scan walks.
  \<^verbatim>\<open>
  const allFiles = glob.sync('**/*', { nodir: true, dot: true });
  const accessibleFiles =
      allFiles.filter(file => !ig.ignores(path.relative(process.cwd(), file)));
  \<close>
\<close>

definition allFiles :: "'rx world \<Rightarrow> string list" where
  "allFiles w = glob_sync w ''**/*'' \<lparr>nodir = True, dot = True, ignore = None\<rparr>"

definition accessibleFiles :: "'rx world \<Rightarrow> string list \<Rightarrow> string list" where
  "accessibleFiles w ig =
     filter (\<lambda>file. \<not> ignore_ignores w ig (path_relative w (cwd w) file)) (allFiles w)"

text \<open>
  The options of the two other calls of \<^verbatim>\<open>glob.sync\<close> (lines 111 and 140):
  \<^verbatim>\<open>{ ignore: '**/node_modules/**' }\<close>; \<^verbatim>\<open>nodir\<close> and \<^verbatim>\<open>dot\<close> are not given
  and keep the library's default, false.
\<close>

definition resolve_options :: glob_options where
  "resolve_options = \<lparr>nodir = False, dot = False, ignore = Some ''**/node_modules/**''\<rparr>"

text \<open>
  Lines 101-117, one round of the \<^verbatim>\<open>forEach\<close> over the inclusion globs. The state
  is the pair of the sets \<^verbatim>\<open>matchedFiles\<close> and \<^verbatim>\<open>unmatchedGlobs\<close>.
\<close>

definition include_glob ::
  "'rx world \<Rightarrow> string \<Rightarrow> string list \<times> string list \<Rightarrow> string list \<times> string list" where
  "include_glob w pattern st =
     (let found = glob_sync w (effectivePattern pattern) resolve_options in
      if length found > 0
      then (fold Set_add found (fst st), Set_delete pattern (snd st))
      else st)"

text \<open>
  Lines 119-128: a file is added when one of the inclusion tags is found in it (the
  inner loop stops at the first). Lines 144-153 run the same inner loop over the
  exclusion tags.
\<close>

definition hasAnyTag :: "'rx world \<Rightarrow> string \<Rightarrow> string list \<Rightarrow> bool" where
  "hasAnyTag w file tags = list_ex (\<lambda>tag. fileHasTag w file tag) tags"

definition include_tags ::
  "'rx world \<Rightarrow> string list \<Rightarrow> string list \<Rightarrow> string list \<Rightarrow> string list" where
  "include_tags w inclusionTags accessible matchedFiles =
     (if length inclusionTags > 0
      then fold (\<lambda>file m. if hasAnyTag w file inclusionTags then Set_add file m else m)
             accessible matchedFiles
      else matchedFiles)"

text \<open>
  Lines 133-142: all exclusion globs go to glob in one call, as the alternatives of
  one brace set.
  \<^verbatim>\<open>
  const exclusionSet = new Set(glob.sync(`{${effectiveExclusionGlobs.join(',')}}`,
                                         { ignore: '**/node_modules/**' }));
  finalFiles = finalFiles.filter(file => !exclusionSet.has(file));
  \<close>
\<close>

definition exclusionPattern :: "string list \<Rightarrow> string" where
  "exclusionPattern exclusionGlobs =
     ''{'' @ join '','' (map effectivePattern exclusionGlobs) @ ''}''"

definition exclusionSet :: "'rx world \<Rightarrow> string list \<Rightarrow> string list" where
  "exclusionSet w exclusionGlobs = glob_sync w (exclusionPattern exclusionGlobs) resolve_options"

definition exclude_globs :: "'rx world \<Rightarrow> string list \<Rightarrow> string list \<Rightarrow> string list" where
  "exclude_globs w exclusionGlobs finalFiles =
     (if length exclusionGlobs > 0
      then filter (\<lambda>file. file \<notin> set (exclusionSet w exclusionGlobs)) finalFiles
      else finalFiles)"

definition exclude_tags :: "'rx world \<Rightarrow> string list \<Rightarrow> string list \<Rightarrow> string list" where
  "exclude_tags w exclusionTags finalFiles =
     (if length exclusionTags > 0
      then filter (\<lambda>file. \<not> hasAnyTag w file exclusionTags) finalFiles
      else finalFiles)"

text \<open>
  Lines 101-130: the two sets start as \<^verbatim>\<open>new Set()\<close> and
  \<^verbatim>\<open>new Set(inclusionGlobs)\<close>; the globs are resolved, then the tags are scanned
  over the accessible files; \<^verbatim>\<open>Array.from(matchedFiles)\<close> is the list in insertion
  order.
\<close>

definition matched_files ::
  "'rx world \<Rightarrow> string list \<Rightarrow> string list \<Rightarrow> string list \<Rightarrow> string list \<times> string list" where
  "matched_files w inclusionGlobs inclusionTags ig =
     (let st = (if length inclusionGlobs > 0
                then fold (include_glob w) inclusionGlobs ([], Set_from inclusionGlobs)
                else ([], Set_from inclusionGlobs))
      in (include_tags w inclusionTags (accessibleFiles w ig) (fst st), snd st))"

text \<open>
  Lines 75-153 together: the final file list and the inclusion globs that matched
  nothing, or the exception that ends the \<^verbatim>\<open>try\<close> block.
\<close>

definition select :: "'rx world \<Rightarrow> argv \<Rightarrow> js_error + (string list \<times> string list)" where
  "select w argv =
     (case map_String (property argv ''_'') of
        Inl e \<Rightarrow> Inl e
      | Inr inclusionArgs \<Rightarrow>
     (case map_String (let notPatterns = property argv ''not''
                       in if truthy notPatterns then notPatterns else JArr []) of
        Inl e \<Rightarrow> Inl e
      | Inr exclusionArgs \<Rightarrow>
     (let inclusionGlobs = filter (\<lambda>p. \<not> startsWith_plus p) inclusionArgs;
          inclusionTags = map substring1 (filter startsWith_plus inclusionArgs);
          exclusionGlobs = filter (\<lambda>p. \<not> startsWith_plus p) exclusionArgs;
          exclusionTags = map substring1 (filter startsWith_plus exclusionArgs)
      in case ignore_rules w argv of
           Inl e \<Rightarrow> Inl e
         | Inr ig \<Rightarrow>
             (let m = matched_files w inclusionGlobs inclusionTags ig
              in Inr (exclude_tags w exclusionTags (exclude_globs w exclusionGlobs (fst m)),
                      snd m)))))"

subsection \<open>Output\<close>

text \<open>
  What the run leaves behind: the lines on standard output and standard error, the
  content of the clipboard, the exit status. A line is kept as the message it carries
  (the source colours it with chalk and prefixes a pictograph):
  \<^item> \<open>UnmatchedPatterns\<close>: line 157, with the patterns it lists;
  \<^item> \<open>NoFilesMatched\<close>: line 161;
  \<^item> \<open>Progress\<close>: line 180, the file and its formatted size;
  \<^item> \<open>Copied\<close>: line 186, the number of files and the formatted total;
  \<^item> \<open>UnexpectedError\<close>, \<open>ErrorMessage\<close>, \<open>ErrorDetail\<close>: lines 189-194.
\<close>

datatype message =
    UnmatchedPatterns "string list"
  | NoFilesMatched
  | Progress string string
  | Copied nat string
  | UnexpectedError
  | ErrorMessage js_error
  | ErrorDetail js_error

record outcome =
  stdout :: "message list"
  stderr :: "message list"
  clipboard :: string
  exit_code :: nat

text \<open>
  Lines 165-183, the loop over the final files. The state is the output so far, the
  buffer and the byte total; a throw of \<^verbatim>\<open>statSync\<close> or \<^verbatim>\<open>readFileSync\<close> ends the
  loop with the output printed until then.
\<close>

record aggregation =
  printed :: "message list"
  aggregatedContent :: string
  totalBytes :: nat

fun aggregate ::
  "'rx world \<Rightarrow> string list \<Rightarrow> aggregation \<Rightarrow> (js_error \<times> message list) + aggregation" where
  "aggregate w [] a = Inr a"
| "aggregate w (file # rest) a =
     (case statSync_size w file of
        Inl e \<Rightarrow> Inl (e, printed a)
      | Inr fileSize \<Rightarrow>
          (let printed' = printed a @ [Progress file (formatBytes fileSize)] in
           case readFileSync w file of
             Inl e \<Rightarrow> Inl (e, printed')
           | Inr content \<Rightarrow>
               aggregate w rest
                 \<lparr>printed = printed',
                  aggregatedContent = aggregatedContent a @
                    ''===== '' @ file @ '' ====='' @ [CHR 0x0A] @ content @ [CHR 0x0A, CHR 0x0A],
                  totalBytes = totalBytes a + fileSize\<rparr>))"

text \<open>
  The handler of lines 188-196: the error goes to standard error, in full under
  \<^verbatim>\<open>verbose\<close>, and the process exits with status 1. The clipboard keeps its content.
\<close>

definition fail :: "argv \<Rightarrow> string \<Rightarrow> message list \<Rightarrow> js_error \<Rightarrow> outcome" where
  "fail argv clip out e =
     \<lparr>stdout = out,
      stderr = [UnexpectedError,
                if truthy (property argv ''verbose'') then ErrorDetail e else ErrorMessage e],
      clipboard = clip,
      exit_code = 1\<rparr>"

text \<open>
  \<^verbatim>\<open>main\<close> from line 74 on, for the \<^verbatim>\<open>argv\<close> that yargs returned and the
  content \<open>clip\<close> of the clipboard before the run. A run that returns from \<^verbatim>\<open>main\<close>
  without a call of \<^verbatim>\<open>process.exit\<close> ends with status 0.
\<close>

definition main :: "'rx world \<Rightarrow> argv \<Rightarrow> string \<Rightarrow> outcome" where
  "main w argv clip =
     (case select w argv of
        Inl e \<Rightarrow> fail argv clip [] e
      | Inr (finalFiles, unmatchedGlobs) \<Rightarrow>
          (let out = (if length unmatchedGlobs > 0 then [UnmatchedPatterns unmatchedGlobs] else [])
           in if length finalFiles = 0
              then \<lparr>stdout = out @ [NoFilesMatched], stderr = [], clipboard = clip, exit_code = 0\<rparr>
              else (case aggregate w finalFiles
                           \<lparr>printed = out, aggregatedContent = [], totalBytes = 0\<rparr> of
                      Inl (e, printed') \<Rightarrow> fail argv clip printed' e
                    | Inr a \<Rightarrow>
                        (case clipboardy_write w (aggregatedContent a) of
                           Some e \<Rightarrow> fail argv clip (printed a) e
                         | None \<Rightarrow>
                             \<lparr>stdout = printed a @
                                [Copied (length finalFiles) (formatBytes (totalBytes a))],
                              stderr = [],
                              clipboard = aggregatedContent a,
                              exit_code = 0\<rparr>))))"

section \<open>Models of the libraries, for concrete runs\<close>

text \<open>
  The properties of \<^verbatim>\<open>main\<close> that hold whatever the libraries answer are proved for
  every \<open>world\<close>. A run on a concrete directory needs concrete answers: this section
  gives executable models of a fragment of each library, and \<open>node_world\<close> puts them
  together over a listing of files. Each model says which inputs it covers.
\<close>

subsection \<open>Regular expressions\<close>

text \<open>
  The fragment of JavaScript's pattern syntax made of pattern characters, \<^verbatim>\<open>.\<close>,
  groups \<^verbatim>\<open>( )\<close>, alternatives \<^verbatim>\<open>|\<close>, the quantifiers \<^verbatim>\<open>*\<close>, \<^verbatim>\<open>+\<close>,
  \<^verbatim>\<open>?\<close> (and their lazy forms), and a backslash before a syntax character. On this
  fragment \<^verbatim>\<open>test\<close> asks whether some substring of the text is in the language of
  the pattern, which \<open>search\<close> decides with derivatives. With the flag \<^verbatim>\<open>s\<close> the
  dot matches every character, without it every character but a line terminator.
\<close>

datatype rexp =
    Zero | One | Chr char | AnyChar | NotLineTerminator
  | Alt rexp rexp | Seq rexp rexp | Star rexp

fun nullable :: "rexp \<Rightarrow> bool" where
  "nullable Zero = False"
| "nullable One = True"
| "nullable (Chr c) = False"
| "nullable AnyChar = False"
| "nullable NotLineTerminator = False"
| "nullable (Alt r s) = (nullable r \<or> nullable s)"
| "nullable (Seq r s) = (nullable r \<and> nullable s)"
| "nullable (Star r) = True"

fun deriv :: "char \<Rightarrow> rexp \<Rightarrow> rexp" where
  "deriv c Zero = Zero"
| "deriv c One = Zero"
| "deriv c (Chr d) = (if c = d then One else Zero)"
| "deriv c AnyChar = One"
| "deriv c NotLineTerminator = (if c = CHR 0x0A \<or> c = CHR 0x0D then Zero else One)"
| "deriv c (Alt r s) = Alt (deriv c r) (deriv c s)"
| "deriv c (Seq r s) =
     (if nullable r then Alt (Seq (deriv c r) s) (deriv c s) else Seq (deriv c r) s)"
| "deriv c (Star r) = Seq (deriv c r) (Star r)"

fun match_prefix :: "rexp \<Rightarrow> string \<Rightarrow> bool" where
  "match_prefix r [] = nullable r"
| "match_prefix r (c # cs) = (nullable r \<or> match_prefix (deriv c r) cs)"

fun search :: "rexp \<Rightarrow> string \<Rightarrow> bool" where
  "search r [] = nullable r"
| "search r (c # cs) = (match_prefix r (c # cs) \<or> search r cs)"

text \<open>
  The parser reads the pattern from left to right. A frame holds the finished
  alternatives of the group being read and the terms of its current alternative, newest
  first; the stack holds the frames of the enclosing groups. \<open>quantifiable\<close> says
  whether a quantifier may follow: after an atom, or (only \<^verbatim>\<open>?\<close>, which makes the
  quantifier lazy and leaves the language as it is) after a quantifier. The constructor
  throws \<open>SyntaxError\<close> for a group that is not closed, a closing parenthesis without
  a group, a quantifier with nothing to repeat and a backslash at the end.
\<close>

type_synonym frame = "rexp list \<times> rexp list"

definition seq_of :: "rexp list \<Rightarrow> rexp" where
  "seq_of ts = fold Seq ts One"

fun alt_of :: "rexp list \<Rightarrow> rexp" where
  "alt_of [] = Zero"
| "alt_of [a] = a"
| "alt_of (a # b # bs) = Alt a (alt_of (b # bs))"

definition close_frame :: "frame \<Rightarrow> rexp" where
  "close_frame f = alt_of (fst f @ [seq_of (snd f)])"

datatype quantifiable = Nothing | Atom | Quantified

definition syntax_char :: "char \<Rightarrow> bool" where
  "syntax_char c = (c \<in> set ''^$.*+?()[]{}|/'' \<or> c = CHR 0x5C)"

fun parse_re ::
  "bool \<Rightarrow> string \<Rightarrow> quantifiable \<Rightarrow> frame \<Rightarrow> frame list \<Rightarrow> js_error + rexp" where
  "parse_re dotAll [] q cur stack =
     (if stack = [] then Inr (close_frame cur) else Inl SyntaxError)"
| "parse_re dotAll (c # cs) q cur stack =
     (if c = CHR ''('' then
        (if take 1 cs = ''?'' then Inl Unmodelled
         else parse_re dotAll cs Nothing ([], []) (cur # stack))
      else if c = CHR '')'' then
        (case stack of
           [] \<Rightarrow> Inl SyntaxError
         | outer # rest \<Rightarrow>
             parse_re dotAll cs Atom (fst outer, close_frame cur # snd outer) rest)
      else if c = CHR ''|'' then
        parse_re dotAll cs Nothing (fst cur @ [seq_of (snd cur)], []) stack
      else if c = CHR ''*'' \<or> c = CHR ''+'' then
        (case (q, snd cur) of
           (Atom, t # ts) \<Rightarrow>
             parse_re dotAll cs Quantified
               (fst cur, (if c = CHR ''*'' then Star t else Seq t (Star t)) # ts) stack
         | _ \<Rightarrow> Inl SyntaxError)
      else if c = CHR ''?'' then
        (case (q, snd cur) of
           (Atom, t # ts) \<Rightarrow> parse_re dotAll cs Quantified (fst cur, Alt t One # ts) stack
         | (Quantified, t # ts) \<Rightarrow> parse_re dotAll cs Nothing cur stack
         | _ \<Rightarrow> Inl SyntaxError)
      else if c = CHR 0x5C then
        (case cs of
           [] \<Rightarrow> Inl SyntaxError
         | e # cs' \<Rightarrow>
             if syntax_char e then parse_re dotAll cs' Atom (fst cur, Chr e # snd cur) stack
             else Inl Unmodelled)
      else if c = CHR ''.'' then
        parse_re dotAll cs Atom
          (fst cur, (if dotAll then AnyChar else NotLineTerminator) # snd cur) stack
      else if c = CHR ''['' \<or> c = CHR ''{'' \<or> c = CHR ''^'' \<or> c = CHR ''$'' then
        Inl Unmodelled
      else parse_re dotAll cs Atom (fst cur, Chr c # snd cur) stack)"

text \<open>
  \<^verbatim>\<open>new RegExp(pattern, flags)\<close> for the flags \<^verbatim>\<open>''\<close> and \<^verbatim>\<open>'s'\<close>.
\<close>

definition RegExp_model :: "string \<Rightarrow> string \<Rightarrow> js_error + rexp" where
  "RegExp_model pattern flags =
     (if flags = [] \<or> flags = ''s''
      then parse_re (flags = ''s'') pattern Nothing ([], []) []
      else Inl Unmodelled)"

subsection \<open>Brace expansion and glob matching\<close>

text \<open>
  \<^verbatim>\<open>str.split(sep)\<close> for a one-character separator.
\<close>

fun split_on :: "char \<Rightarrow> string \<Rightarrow> string list" where
  "split_on sep [] = [[]]"
| "split_on sep (c # cs) =
     (if c = sep then [] # split_on sep cs
      else (case split_on sep cs of [] \<Rightarrow> [[c]] | s # ss \<Rightarrow> (c # s) # ss))"

text \<open>
  glob expands braces before it matches, as the shell does. The model covers comma
  sets, nested to any depth: a pattern is read into characters and sets of
  alternatives; an opening brace that is never closed, a closing brace that closes
  nothing and a comma outside every set are plain characters. A set with two or more
  alternatives stands for each of them in turn. A set with one alternative is not a
  set to expand: its braces stay in the text (\<^verbatim>\<open>{a}\<close> is the four-character name,
  \<^verbatim>\<open>x{{a,b}}y\<close> gives \<^verbatim>\<open>x{a}y\<close> and \<^verbatim>\<open>x{b}y\<close>). An empty expansion is dropped.
  Numeric and letter ranges (\<^verbatim>\<open>{1..3}\<close>), a set after \<^verbatim>\<open>$\<close> and backslash
  escapes are outside the model.
\<close>

datatype brace = BChar char | BSet "brace list list"

type_synonym bframe = "brace list \<times> brace list list"

definition unclosed :: "brace list list \<Rightarrow> brace list \<Rightarrow> brace list" where
  "unclosed alts cur =
     BChar CHR ''{'' # concat (map (\<lambda>a. a @ [BChar CHR '','']) alts) @ cur"

fun brace_parse :: "string \<Rightarrow> brace list \<Rightarrow> bframe list \<Rightarrow> brace list" where
  "brace_parse [] cur [] = cur"
| "brace_parse [] cur ((outer, alts) # stack) =
     brace_parse [] (outer @ unclosed alts cur) stack"
| "brace_parse (c # cs) cur stack =
     (if c = CHR ''{'' then brace_parse cs [] ((cur, []) # stack)
      else if c = CHR '','' then
        (case stack of
           [] \<Rightarrow> brace_parse cs (cur @ [BChar c]) []
         | (outer, alts) # rest \<Rightarrow> brace_parse cs [] ((outer, alts @ [cur]) # rest))
      else if c = CHR ''}'' then
        (case stack of
           [] \<Rightarrow> brace_parse cs (cur @ [BChar c]) []
         | (outer, alts) # rest \<Rightarrow> brace_parse cs (outer @ [BSet (alts @ [cur])]) rest)
      else brace_parse cs (cur @ [BChar c]) stack)"

definition product_strings :: "string list \<Rightarrow> string list \<Rightarrow> string list" where
  "product_strings xs ys = concat (map (\<lambda>x. map (\<lambda>y. x @ y) ys) xs)"

fun brace_strings :: "brace \<Rightarrow> string list"
  and brace_seq :: "brace list \<Rightarrow> string list"
  and brace_alts :: "brace list list \<Rightarrow> string list" where
  "brace_strings (BChar c) = [[c]]"
| "brace_strings (BSet alts) =
     (case alts of
        [a] \<Rightarrow> map (\<lambda>s. ''{'' @ s @ ''}'') (brace_seq a)
      | _ \<Rightarrow> brace_alts alts)"
| "brace_seq [] = [[]]"
| "brace_seq (b # bs) = product_strings (brace_strings b) (brace_seq bs)"
| "brace_alts [] = []"
| "brace_alts (a # as) = brace_seq a @ brace_alts as"

definition braceExpand :: "string \<Rightarrow> string list" where
  "braceExpand pattern = filter (\<lambda>s. s \<noteq> []) (brace_seq (brace_parse pattern [] []))"

text \<open>
  Matching, for patterns whose parts between slashes are \<^verbatim>\<open>**\<close> or are made of
  plain characters, \<^verbatim>\<open>*\<close> and \<^verbatim>\<open>?\<close>. A part matches one name of the path;
  \<^verbatim>\<open>*\<close> matches any run of characters and \<^verbatim>\<open>?\<close> any one. \<^verbatim>\<open>**\<close> matches
  any number of names, none included. The rule for hidden names is the one glob
  documents for its option \<^verbatim>\<open>dot\<close>: unless the option is set, a name that begins
  with a dot is matched only by a part that itself begins with a dot, and \<^verbatim>\<open>**\<close>
  does not pass over such a name.

  Outside the model: character classes, extglobs, a leading \<^verbatim>\<open>!\<close> or \<^verbatim>\<open>#\<close>,
  backslash escapes (the model reads all of these as plain characters), and the parts
  \<^verbatim>\<open>.\<close>, \<^verbatim>\<open>..\<close> and the empty part, which glob resolves as directories and
  the model reads as names to match (so \<^verbatim>\<open>./a.txt\<close> resolves nothing here).
  Names are compared with regard to case, as glob does on Linux.
  \<open>modelled_glob\<close> below says which patterns are inside.
\<close>

datatype wild = WStar | WAny | WChar char

datatype segment = GlobStar | Name "wild list"

definition wild_of :: "char \<Rightarrow> wild" where
  "wild_of c = (if c = CHR ''*'' then WStar else if c = CHR ''?'' then WAny else WChar c)"

definition segment_of :: "string \<Rightarrow> segment" where
  "segment_of s = (if s = ''**'' then GlobStar else Name (map wild_of s))"

definition segments_of :: "string \<Rightarrow> segment list" where
  "segments_of pattern = map segment_of (split_on CHR ''/'' pattern)"

fun wild_match :: "wild list \<Rightarrow> string \<Rightarrow> bool" where
  "wild_match [] s = (s = [])"
| "wild_match (WChar c # ws) s =
     (case s of [] \<Rightarrow> False | x # xs \<Rightarrow> x = c \<and> wild_match ws xs)"
| "wild_match (WAny # ws) s = (case s of [] \<Rightarrow> False | x # xs \<Rightarrow> wild_match ws xs)"
| "wild_match (WStar # ws) s =
     (wild_match ws s \<or> (case s of [] \<Rightarrow> False | x # xs \<Rightarrow> wild_match (WStar # ws) xs))"

definition hidden :: "string \<Rightarrow> bool" where
  "hidden name = (take 1 name = ''.'')"

definition literal_dot :: "wild list \<Rightarrow> bool" where
  "literal_dot ws = (take 1 ws = [WChar CHR ''.''])"

definition name_match :: "bool \<Rightarrow> wild list \<Rightarrow> string \<Rightarrow> bool" where
  "name_match d ws name =
     (wild_match ws name \<and> (if hidden name then d \<or> literal_dot ws else True))"

fun path_match :: "bool \<Rightarrow> segment list \<Rightarrow> string list \<Rightarrow> bool" where
  "path_match d [] names = (names = [])"
| "path_match d (Name ws # segs) names =
     (case names of [] \<Rightarrow> False | n # ns \<Rightarrow> name_match d ws n \<and> path_match d segs ns)"
| "path_match d (GlobStar # segs) names =
     (path_match d segs names \<or>
      (case names of
         [] \<Rightarrow> False
       | n # ns \<Rightarrow> (if hidden n then d else True) \<and> path_match d (GlobStar # segs) ns))"

definition minimatch :: "bool \<Rightarrow> string \<Rightarrow> string \<Rightarrow> bool" where
  "minimatch d pattern path =
     list_ex (\<lambda>p. path_match d (segments_of p) (split_on CHR ''/'' path)) (braceExpand pattern)"

text \<open>
  \<^verbatim>\<open>glob.sync\<close> over a listing of the files under the working directory, each a
  relative path. The directories are the proper prefixes of these paths. The result
  keeps the order of the listing, files before directories; \<^verbatim>\<open>nodir\<close> leaves the
  directories out, and a path that the \<^verbatim>\<open>ignore\<close> pattern matches (always with
  \<^verbatim>\<open>dot\<close>) is dropped.
\<close>

fun directories :: "string list \<Rightarrow> string list list" where
  "directories [] = []"
| "directories [name] = []"
| "directories (d # n # ns) = [d] # map (\<lambda>p. d # p) (directories (n # ns))"

definition directories_of :: "string list \<Rightarrow> string list" where
  "directories_of files =
     Set_from (concat (map (\<lambda>f. map (join ''/'') (directories (split_on CHR ''/'' f))) files))"

definition glob_model :: "string list \<Rightarrow> string \<Rightarrow> glob_options \<Rightarrow> string list" where
  "glob_model files pattern opts =
     filter (\<lambda>p. minimatch (dot opts) pattern p \<and>
                 (case ignore opts of None \<Rightarrow> True | Some ig \<Rightarrow> \<not> minimatch True ig p))
       (if nodir opts then files else files @ directories_of files)"


text \<open>
  Which part of a pattern matches which name of a path, said without the option
  \<^verbatim>\<open>dot\<close>. \<open>stretches segs parts\<close>: the list \<open>parts\<close>, one part for each name,
  is the pattern with every \<^verbatim>\<open>**\<close> written as often as it passes over a name (also
  not at all). \<open>part_matches\<close>: the name is one that the part matches by its
  characters and wildcards alone. \<open>dotted\<close>: the part begins with a dot of its own.
\<close>

fun stretches :: "segment list \<Rightarrow> segment list \<Rightarrow> bool" where
  "stretches [] parts = (parts = [])"
| "stretches (Name ws # segs) parts =
     (case parts of
        Name ws' # ps \<Rightarrow> ws' = ws \<and> stretches segs ps
      | _ \<Rightarrow> False)"
| "stretches (GlobStar # segs) parts =
     (stretches segs parts \<or>
      (case parts of
         GlobStar # ps \<Rightarrow> stretches (GlobStar # segs) ps
       | _ \<Rightarrow> False))"

fun part_matches :: "segment \<Rightarrow> string \<Rightarrow> bool" where
  "part_matches GlobStar name = True"
| "part_matches (Name ws) name = wild_match ws name"

fun dotted :: "segment \<Rightarrow> bool" where
  "dotted GlobStar = False"
| "dotted (Name ws) = literal_dot ws"

subsection \<open>Ignore rules\<close>

text \<open>
  The \<^verbatim>\<open>ignore\<close> package reads each added string as the lines of a
  \<^verbatim>\<open>.gitignore\<close>, ended by LF or CRLF, and compares without regard to case. The
  model covers lines that are one name, with \<^verbatim>\<open>*\<close> and \<^verbatim>\<open>?\<close> allowed in it
  and a slash allowed at its end: such a rule ignores a file when the name matches one
  of the directories above it or, without the final slash, the file's own name. Empty
  lines and comments are no rules. Outside the model, and without effect in it:
  anchored patterns (a slash inside or in front), negations, classes, escapes and
  lines with spaces.
\<close>

definition lower :: "char \<Rightarrow> char" where
  "lower c =
     (case map_of (zip ''ABCDEFGHIJKLMNOPQRSTUVWXYZ'' ''abcdefghijklmnopqrstuvwxyz'') c of
        Some l \<Rightarrow> l
      | None \<Rightarrow> c)"

definition strip_cr :: "string \<Rightarrow> string" where
  "strip_cr line = (if line \<noteq> [] \<and> last line = CHR 0x0D then butlast line else line)"

definition plain_rule :: "string \<Rightarrow> bool" where
  "plain_rule name =
     (name \<noteq> [] \<and>
      list_all (\<lambda>c. c \<notin> set ''/![]# '' \<and> c \<noteq> CHR 0x5C \<and> c \<noteq> CHR 0x0D) name)"

definition name_ignored :: "string \<Rightarrow> string \<Rightarrow> bool" where
  "name_ignored rule name = wild_match (map wild_of (map lower rule)) (map lower name)"

definition rule_ignores :: "string \<Rightarrow> string list \<Rightarrow> bool" where
  "rule_ignores line names =
     (if line \<noteq> [] \<and> last line = CHR ''/''
      then plain_rule (butlast line) \<and> list_ex (name_ignored (butlast line)) (butlast names)
      else plain_rule line \<and> list_ex (name_ignored line) names)"

definition ignore_model :: "string list \<Rightarrow> string \<Rightarrow> bool" where
  "ignore_model added path =
     list_ex (\<lambda>line. rule_ignores (strip_cr line) (split_on CHR ''/'' path))
       (concat (map (split_on CHR 0x0A) added))"

subsection \<open>A directory of files\<close>

text \<open>
  The world of a run in the directory \<^verbatim>\<open>/work\<close> that holds the listed files, each
  with its content: paths are POSIX paths, a file's size is the length of its content,
  reading a path that is not listed throws, and the clipboard accepts every write.
  \<open>posix_relative\<close> is \<^verbatim>\<open>path.relative\<close> for a second argument that is a relative
  path without \<^verbatim>\<open>.\<close> and \<^verbatim>\<open>..\<close> parts (as the paths of \<open>glob_model\<close> are), or
  an absolute path below the first.
\<close>

definition posix_join :: "string \<Rightarrow> string \<Rightarrow> string" where
  "posix_join a b = a @ ''/'' @ b"

definition posix_relative :: "string \<Rightarrow> string \<Rightarrow> string" where
  "posix_relative a b =
     (if take (length a + 1) b = a @ ''/'' then drop (length a + 1) b else b)"

definition read_model :: "(string \<times> string) list \<Rightarrow> string \<Rightarrow> js_error + string" where
  "read_model files p =
     (let r = posix_relative ''/work'' p in
      case map_of files r of
        Some content \<Rightarrow> Inr content
      | None \<Rightarrow> if r \<in> set (directories_of (map fst files)) then Inl EISDIR else Inl ENOENT)"

definition exists_model :: "(string \<times> string) list \<Rightarrow> string \<Rightarrow> bool" where
  "exists_model files p =
     (let r = posix_relative ''/work'' p in
      r \<in> set (map fst files) \<or> r \<in> set (directories_of (map fst files)))"

definition size_model :: "(string \<times> string) list \<Rightarrow> string \<Rightarrow> js_error + nat" where
  "size_model files p =
     (let r = posix_relative ''/work'' p in
      case map_of files r of
        Some content \<Rightarrow> Inr (length content)
      | None \<Rightarrow> if r \<in> set (directories_of (map fst files)) then Inr 4096 else Inl ENOENT)"

definition node_world :: "(string \<times> string) list \<Rightarrow> rexp world" where
  "node_world files =
     \<lparr>cwd = ''/work'',
      path_join = posix_join,
      path_relative = posix_relative,
      existsSync = exists_model files,
      readFileSync = read_model files,
      statSync_size = size_model files,
      glob_sync = glob_model (map fst files),
      ignore_ignores = ignore_model,
      RegExp_new = RegExp_model,
      RegExp_test = search,
      clipboardy_write = (\<lambda>text. None)\<rparr>"

subsection \<open>The batched exclusion, glob by glob\<close>

text \<open>
  What the batched call of lines 133-142 is meant to compute, in the words of the
  specification: the union of resolving each exclusion glob on its own, each with the
  same \<^verbatim>\<open>**/\<close> prefix rule. \<open>exclusionSet\<close> above is what the code computes.
\<close>

definition exclusion_each :: "'rx world \<Rightarrow> string list \<Rightarrow> string list" where
  "exclusion_each w exclusionGlobs =
     concat (map (\<lambda>pattern. glob_sync w (effectivePattern pattern) resolve_options)
               exclusionGlobs)"

text \<open>
  \<^verbatim>\<open>text.includes(sub)\<close>: the text contains \<open>sub\<close> letter for letter.
\<close>

fun includes_text :: "string \<Rightarrow> string \<Rightarrow> bool" where
  "includes_text [] sub = (sub = [])"
| "includes_text (c # cs) sub = (take (length sub) (c # cs) = sub \<or> includes_text cs sub)"

subsection \<open>Sample directories\<close>

text \<open>
  The directories of the concrete runs below: a TypeScript file with its test; a
  project whose \<^verbatim>\<open>.gitignore\<close> hides a directory that holds a tagged file; two
  text files, one of them tagged, listed in either order; a directory with hidden
  entries.
\<close>

definition ts_project :: "(string \<times> string) list" where
  "ts_project = [(''a.ts'', ''let a''), (''a.test.ts'', ''test a'')]"

definition backend_project :: "(string \<times> string) list" where
  "backend_project =
     [(''.gitignore'', ''secrets/''),
      (''secrets/config.py'', ''# tags: #backend''),
      (''app.py'', ''# tags: #backend'')]"

definition txt_project :: "(string \<times> string) list" where
  "txt_project =
     [(''a.txt'', ''hello''), (''b.txt'', ''tags: #draft'' @ [CHR 0x0A] @ ''world'')]"

definition txt_project_reordered :: "(string \<times> string) list" where
  "txt_project_reordered =
     [(''b.txt'', ''tags: #draft'' @ [CHR 0x0A] @ ''world''), (''a.txt'', ''hello'')]"


section \<open>Properties\<close>

subsection \<open>Byte-size formatting\<close>

lemma log1024_small: "n < 1024 \<Longrightarrow> log1024 n = 0"
  by simp

lemma log1024_step: "1024 \<le> n \<Longrightarrow> log1024 n = Suc (log1024 (n div 1024))"
  by simp

lemma show_nat_digit: "n < 10 \<Longrightarrow> show_nat n = [digit n]"
  by simp

lemmas [simp del] = log1024.simps show_nat.simps

text \<open>
  C8. \<open>formatBytes\<close> prints 0 bytes as \<open>0B\<close>, 1024 bytes as \<open>1k\<close> and 1536 bytes as
  \<open>1.5k\<close>.
\<close>

theorem formatBytes_examples:
  "formatBytes 0 = ''0B'' \<and> formatBytes 1024 = ''1k'' \<and> formatBytes 1536 = ''1.5k''"
proof -
  have l1: "log1024 1024 = 1"
    by (simp add: log1024_step log1024_small)
  have l2: "log1024 1536 = 1"
    by (simp add: log1024_step log1024_small)
  have a: "formatBytes 0 = ''0B''"
    by (simp add: formatBytes_def)
  have b: "formatBytes 1024 = ''1k''"
    by (simp add: formatBytes_def size_index_def l1 toFixed2_def show_hundredths_def
        show_nat_digit digit_def sizes_def)
  have c: "formatBytes 1536 = ''1.5k''"
    by (simp add: formatBytes_def size_index_def l2 toFixed2_def show_hundredths_def
        show_nat_digit digit_def sizes_def)
  from a b c show ?thesis by simp
qed

subsection \<open>Evaluating the models\<close>

text \<open>
  The facts that unfold one layer of the program or of a model each; a concrete run is
  computed layer by layer, with the results of the layer below as rewrite rules.
\<close>

lemmas glob_ev = glob_model_def minimatch_def braceExpand_def segments_of_def segment_of_def
  wild_of_def name_match_def hidden_def literal_dot_def directories_of_def product_strings_def
  Set_from_def Set_add_def resolve_options_def unclosed_def

lemmas select_ev = select_def yargs_argv_def property_def
  matched_files_def include_glob_def include_tags_def exclude_globs_def exclude_tags_def
  exclusionSet_def exclusionPattern_def effectivePattern_def includes_slash_def
  startsWith_plus_def substring1_def accessibleFiles_def
  hasAnyTag_def Set_add_def Set_from_def Set_delete_def

lemmas fs_ev = exists_model_def read_model_def size_model_def posix_relative_def posix_join_def
  directories_of_def Set_from_def Set_add_def

lemmas tag_ev = fileHasTag_def fileHasTag_try_def RegExp_model_def close_frame_def seq_of_def
  syntax_char_def

lemmas ignore_ev = ignore_model_def rule_ignores_def plain_rule_def name_ignored_def
  strip_cr_def lower_def wild_of_def posix_relative_def

lemma world_fields:
  "cwd (node_world fs) = ''/work''"
  "path_join (node_world fs) = posix_join"
  "path_relative (node_world fs) = posix_relative"
  "existsSync (node_world fs) = exists_model fs"
  "readFileSync (node_world fs) = read_model fs"
  "statSync_size (node_world fs) = size_model fs"
  "glob_sync (node_world fs) = glob_model (map fst fs)"
  "ignore_ignores (node_world fs) = ignore_model"
  "RegExp_new (node_world fs) = RegExp_model"
  "RegExp_test (node_world fs) = search"
  "clipboardy_write (node_world fs) = (\<lambda>text. None)"
  by (simp_all add: node_world_def)

text \<open>
  The enumeration of the tag scan, \<^verbatim>\<open>**/*\<close> with \<^verbatim>\<open>nodir\<close> and \<^verbatim>\<open>dot\<close>, returns
  every file of the directory, the hidden ones too.
\<close>

lemma split_on_nonempty: "split_on sep s \<noteq> []"
  by (induction s) (auto split: list.splits)

lemma wild_star_any: "wild_match [WStar] s"
  by (induction s) auto

lemma path_match_everything:
  "names \<noteq> [] \<Longrightarrow> path_match True [GlobStar, Name [WStar]] names"
proof (induction names)
  case Nil
  then show ?case by simp
next
  case (Cons n ns)
  show ?case
  proof (cases ns)
    case Nil
    have "wild_match [WStar] n" by (rule wild_star_any)
    with Nil show ?thesis by (simp add: name_match_def del: wild_match.simps)
  next
    case (Cons m ms)
    with Cons.IH show ?thesis by simp
  qed
qed

lemma braceExpand_universe: "braceExpand ''**/*'' = [''**/*'']"
  by (simp add: braceExpand_def product_strings_def)

lemma segments_universe: "segments_of ''**/*'' = [GlobStar, Name [WStar]]"
  by (simp add: segments_of_def segment_of_def wild_of_def)

lemma allFiles_node_world: "allFiles (node_world fs) = map fst fs"
  by (simp add: allFiles_def node_world_def glob_model_def minimatch_def braceExpand_universe
      segments_universe path_match_everything split_on_nonempty del: path_match.simps)

subsection \<open>The Set keeps each path once\<close>

lemma distinct_Set_add: "distinct s \<Longrightarrow> distinct (Set_add x s)"
  by (simp add: Set_add_def)

lemma set_Set_add: "set (Set_add x s) = insert x (set s)"
  by (auto simp: Set_add_def)

lemma distinct_fold_Set_add: "distinct s \<Longrightarrow> distinct (fold Set_add xs s)"
  by (induction xs arbitrary: s) (simp_all add: distinct_Set_add)

lemma set_fold_Set_add: "set (fold Set_add xs s) = set xs \<union> set s"
  by (induction xs arbitrary: s) (auto simp: set_Set_add)

lemma set_Set_from: "set (Set_from xs) = set xs"
  by (simp add: Set_from_def set_fold_Set_add)

lemma distinct_include_glob:
  "distinct (fst st) \<Longrightarrow> distinct (fst (include_glob w pattern st))"
  by (simp add: include_glob_def Let_def distinct_fold_Set_add)

lemma distinct_fold_include_glob:
  "distinct (fst st) \<Longrightarrow> distinct (fst (fold (include_glob w) gs st))"
  by (induction gs arbitrary: st) (simp_all add: distinct_include_glob)

lemma distinct_tag_fold:
  "distinct m \<Longrightarrow> distinct (fold (\<lambda>file m. if P file then Set_add file m else m) fs m)"
  by (induction fs arbitrary: m) (simp_all add: distinct_Set_add)

lemma distinct_include_tags: "distinct m \<Longrightarrow> distinct (include_tags w tags acc m)"
  by (simp add: include_tags_def distinct_tag_fold)

lemma distinct_matched_files: "distinct (fst (matched_files w gs ts ig))"
  by (simp add: matched_files_def Let_def distinct_include_tags distinct_fold_include_glob)

lemma distinct_exclude_globs: "distinct fs \<Longrightarrow> distinct (exclude_globs w gs fs)"
  by (simp add: exclude_globs_def)

lemma distinct_exclude_tags: "distinct fs \<Longrightarrow> distinct (exclude_tags w ts fs)"
  by (simp add: exclude_tags_def)

text \<open>
  C6. Whatever the libraries answer and however many inclusion globs and inclusion
  tags match a path, the final selection holds each path at most once.
\<close>

theorem final_selection_distinct:
  "select w argv = Inr (finalFiles, unmatchedGlobs) \<Longrightarrow> distinct finalFiles"
  by (auto simp: select_def Let_def distinct_exclude_tags distinct_exclude_globs
      distinct_matched_files split: sum.splits)

text \<open>
  The two text files: \<^verbatim>\<open>b.txt\<close> is matched by the glob \<^verbatim>\<open>*.txt\<close> and carries the
  tag \<^verbatim>\<open>draft\<close>; the run \<^verbatim>\<open>clop "*.txt" +draft\<close> selects it once.
\<close>

lemma txt_names:
  "map fst txt_project = [''a.txt'', ''b.txt'']"
  "map fst txt_project_reordered = [''b.txt'', ''a.txt'']"
  by (simp_all add: txt_project_def txt_project_reordered_def)

lemma txt_glob:
  "glob_model [''a.txt'', ''b.txt''] ''**/*.txt'' resolve_options = [''a.txt'', ''b.txt'']"
  "glob_model [''b.txt'', ''a.txt''] ''**/*.txt'' resolve_options = [''b.txt'', ''a.txt'']"
  by (simp_all add: glob_ev)

lemma txt_rules:
  "ignore_rules (node_world txt_project) argv = Inr [''node_modules'']"
  "ignore_rules (node_world txt_project_reordered) argv = Inr [''node_modules'']"
  by (simp_all add: ignore_rules_def Let_def world_fields fs_ev txt_project_def
      txt_project_reordered_def)

lemma txt_not_ignored:
  "\<not> ignore_model [''node_modules''] (posix_relative ''/work'' ''a.txt'')"
  "\<not> ignore_model [''node_modules''] (posix_relative ''/work'' ''b.txt'')"
  by (simp_all add: ignore_ev)

lemma txt_tags:
  "\<not> fileHasTag (node_world txt_project) ''a.txt'' ''draft''"
  "fileHasTag (node_world txt_project) ''b.txt'' ''draft''"
  by (simp_all add: tag_ev world_fields fs_ev txt_project_def)

text \<open>
  Witness of C6: the run \<^verbatim>\<open>clop "*.txt" +draft\<close> over the two text files.
\<close>

theorem final_selection_distinct_witness:
  "select (node_world txt_project) (yargs_argv [''*.txt'', ''+draft''] [] False False) =
     Inr ([''a.txt'', ''b.txt''], []) \<and> distinct [''a.txt'', ''b.txt'']"
proof -
  have s: "select (node_world txt_project) (yargs_argv [''*.txt'', ''+draft''] [] False False) =
     Inr ([''a.txt'', ''b.txt''], [])"
    by (simp add: select_ev allFiles_node_world txt_rules world_fields txt_names txt_glob
        txt_not_ignored txt_tags)
  from final_selection_distinct [OF s] s show ?thesis by simp
qed

subsection \<open>The tag test\<close>

text \<open>
  C7. When reading the file throws, whatever the error, the body of the tag test
  throws it, the handler turns it into \<open>False\<close>, and so does the loop over several
  tags: the scan goes on to the next file.
\<close>

theorem unreadable_file_has_no_tag:
  "readFileSync w filePath = Inl e \<Longrightarrow>
   fileHasTag_try w filePath tag = Inl e \<and> fileHasTag w filePath tag = False \<and>
   hasAnyTag w filePath tags = False"
  by (simp add: fileHasTag_try_def fileHasTag_def hasAnyTag_def list_ex_iff)

text \<open>
  Witness of C7: a file that is no longer in the directory.
\<close>

theorem unreadable_file_has_no_tag_witness:
  "readFileSync (node_world txt_project) ''gone.txt'' = Inl ENOENT \<and>
   fileHasTag_try (node_world txt_project) ''gone.txt'' ''draft'' = Inl ENOENT \<and>
   fileHasTag (node_world txt_project) ''gone.txt'' ''draft'' = False \<and>
   hasAnyTag (node_world txt_project) ''gone.txt'' [''draft''] = False"
proof -
  have r: "readFileSync (node_world txt_project) ''gone.txt'' = Inl ENOENT"
    by (simp add: world_fields fs_ev txt_project_def)
  from unreadable_file_has_no_tag [OF r] r show ?thesis by simp
qed

text \<open>
  The pattern is the text \<^verbatim>\<open>tags:.*#\<close> followed by the tag name as it is given.
  When the constructor rejects it, the test is false for every file, readable or not.
\<close>

lemma rejected_pattern_has_no_tag:
  "RegExp_new w (''tags:.*#'' @ tag) ''s'' = Inl e \<Longrightarrow> fileHasTag w filePath tag = False"
  by (simp add: fileHasTag_def fileHasTag_try_def split: sum.splits)

text \<open>
  C9. The tag name goes into the pattern as it is, so it is read as pattern syntax.
  The name \<^verbatim>\<open>foo(\<close> gives the pattern \<^verbatim>\<open>tags:.*#foo(\<close>, an unterminated group: the
  constructor throws, and the test is false for every file of every directory, also
  for the file whose text is \<^verbatim>\<open>// tags: #foo(\<close>. The name \<^verbatim>\<open>a.c\<close> is a valid pattern
  whose dot matches any character: the test is true for the text \<^verbatim>\<open>// tags: #abc\<close>,
  which does not contain \<^verbatim>\<open>#a.c\<close>.
\<close>

theorem tag_is_read_as_regex:
  "RegExp_new (node_world fs) (''tags:.*#'' @ ''foo('') ''s'' = Inl SyntaxError \<and>
   fileHasTag (node_world fs) filePath ''foo('' = False \<and>
   readFileSync (node_world [(''x.js'', ''// tags: #foo('')]) ''x.js'' = Inr ''// tags: #foo('' \<and>
   includes_text ''// tags: #foo('' ''tags:'' \<and> includes_text ''// tags: #foo('' ''#foo('' \<and>
   fileHasTag (node_world [(''x.js'', ''// tags: #foo('')]) ''x.js'' ''foo('' = False \<and>
   readFileSync (node_world [(''y.js'', ''// tags: #abc'')]) ''y.js'' = Inr ''// tags: #abc'' \<and>
   includes_text ''// tags: #abc'' ''#a.c'' = False \<and>
   fileHasTag (node_world [(''y.js'', ''// tags: #abc'')]) ''y.js'' ''a.c'' = True"
proof -
  have r: "RegExp_model (''tags:.*#'' @ ''foo('') ''s'' = Inl SyntaxError"
    by (simp add: RegExp_model_def close_frame_def seq_of_def syntax_char_def)
  have f: "fileHasTag (node_world fs) filePath ''foo('' = False" for fs filePath
    using r by (intro rejected_pattern_has_no_tag [where e = SyntaxError]) (simp add: world_fields)
  have x: "readFileSync (node_world [(''x.js'', ''// tags: #foo('')]) ''x.js'' =
      Inr ''// tags: #foo(''"
    by (simp add: world_fields fs_ev)
  have y: "readFileSync (node_world [(''y.js'', ''// tags: #abc'')]) ''y.js'' =
      Inr ''// tags: #abc''"
    by (simp add: world_fields fs_ev)
  have i: "includes_text ''// tags: #foo('' ''tags:''"
    "includes_text ''// tags: #foo('' ''#foo(''"
    "includes_text ''// tags: #abc'' ''#a.c'' = False"
    by simp_all
  have t: "fileHasTag (node_world [(''y.js'', ''// tags: #abc'')]) ''y.js'' ''a.c'' = True"
    by (simp add: tag_ev world_fields fs_ev)
  from r f x y i t show ?thesis by (simp add: world_fields)
qed

subsection \<open>The ignore file\<close>

lemma backend_names:
  "map fst backend_project = [''.gitignore'', ''secrets/config.py'', ''app.py'']"
  by (simp add: backend_project_def)

lemma backend_rules:
  "ignore_rules (node_world backend_project) (yargs_argv positional nots nogitignore verbose) =
     Inr [''secrets/'', ''node_modules'']"
  by (simp add: ignore_rules_def Let_def world_fields fs_ev backend_project_def yargs_argv_def
      property_def)

lemma backend_ignored:
  "\<not> ignore_model [''secrets/'', ''node_modules''] (posix_relative ''/work'' ''.gitignore'')"
  "ignore_model [''secrets/'', ''node_modules''] (posix_relative ''/work'' ''secrets/config.py'')"
  "\<not> ignore_model [''secrets/'', ''node_modules''] (posix_relative ''/work'' ''app.py'')"
  by (simp_all add: ignore_ev)

lemma backend_tags:
  "\<not> fileHasTag (node_world backend_project) ''.gitignore'' ''backend''"
  "fileHasTag (node_world backend_project) ''secrets/config.py'' ''backend''"
  "fileHasTag (node_world backend_project) ''app.py'' ''backend''"
  by (simp_all add: tag_ev world_fields fs_ev backend_project_def)

text \<open>
  C1, the code at the failing input. The run \<^verbatim>\<open>clop --nogitignore +backend\<close> in the
  project whose \<^verbatim>\<open>.gitignore\<close> lists \<^verbatim>\<open>secrets/\<close>: yargs sets the property
  \<^verbatim>\<open>nogitignore\<close>, the code reads \<^verbatim>\<open>ignoreGitignore\<close>, which is undefined, so the
  ignore file is read, its rule is added before the built-in one, and the tagged
  file under \<^verbatim>\<open>secrets/\<close> is left out of the selection.
\<close>

theorem nogitignore_flag_is_not_read:
  "property (yargs_argv [''+backend''] [] True False) ''nogitignore'' = JBool True \<and>
   property (yargs_argv [''+backend''] [] True False) ''ignoreGitignore'' = JUndefined \<and>
   ignore_rules (node_world backend_project) (yargs_argv [''+backend''] [] True False) =
     Inr [''secrets/'', ''node_modules''] \<and>
   fileHasTag (node_world backend_project) ''secrets/config.py'' ''backend'' \<and>
   select (node_world backend_project) (yargs_argv [''+backend''] [] True False) =
     Inr ([''app.py''], [])"
proof -
  have flag: "property (yargs_argv [''+backend''] [] True False) ''nogitignore'' = JBool True"
    "property (yargs_argv [''+backend''] [] True False) ''ignoreGitignore'' = JUndefined"
    by (simp_all add: yargs_argv_def property_def)
  have sel: "select (node_world backend_project) (yargs_argv [''+backend''] [] True False) =
     Inr ([''app.py''], [])"
    unfolding select_def backend_rules
    by (simp add: select_ev allFiles_node_world world_fields backend_names backend_ignored
        backend_tags)
  from flag backend_rules [of "[''+backend'']" "[]" True False] backend_tags(2) sel
  show ?thesis by simp
qed

subsection \<open>Exclusion globs\<close>

lemma ts_names: "map fst ts_project = [''a.ts'', ''a.test.ts'']"
  by (simp add: ts_project_def)

lemma ts_glob:
  "glob_model [''a.ts'', ''a.test.ts''] ''**/*.ts'' resolve_options = [''a.ts'', ''a.test.ts'']"
  "glob_model [''a.ts'', ''a.test.ts''] ''**/*.test.ts'' resolve_options = [''a.test.ts'']"
  by (simp_all add: glob_ev)

lemma ts_glob_braced:
  "glob_model [''a.ts'', ''a.test.ts''] ''{**/*.test.ts}'' resolve_options = []"
  "glob_model [''a.ts'', ''a.test.ts''] ''{**/*.ts}'' resolve_options = []"
  by (simp_all add: glob_ev)

lemma ts_rules: "ignore_rules (node_world ts_project) argv = Inr [''node_modules'']"
  by (simp add: ignore_rules_def Let_def world_fields fs_ev ts_project_def)

text \<open>
  Exclusion as far as it works for every behaviour of the libraries: a file in which
  an exclusion tag is found, and a file that the batched call returns, are not in the
  final selection.
\<close>

lemma excluded_by_tag_absent:
  assumes "select w argv = Inr (finalFiles, unmatchedGlobs)"
    and "property argv ''not'' = JArr nots"
    and "t \<in> set nots" and "startsWith_plus t"
    and "fileHasTag w file (substring1 t)"
  shows "file \<notin> set finalFiles"
proof -
  from assms(3,4,5)
  have "hasAnyTag w file (map substring1 (filter startsWith_plus nots))"
    by (auto simp: hasAnyTag_def list_ex_iff)
  moreover from assms(3,4) have "map substring1 (filter startsWith_plus nots) \<noteq> []"
    by (auto simp: filter_empty_conv)
  ultimately show ?thesis
    using assms(1,2)
    by (auto simp: select_def Let_def exclude_tags_def split: sum.splits)
qed

lemma excluded_by_batch_absent:
  assumes "select w argv = Inr (finalFiles, unmatchedGlobs)"
    and "property argv ''not'' = JArr nots"
    and "file \<in> set (exclusionSet w (filter (\<lambda>p. \<not> startsWith_plus p) nots))"
    and "filter (\<lambda>p. \<not> startsWith_plus p) nots \<noteq> []"
  shows "file \<notin> set finalFiles"
  using assms
  by (auto simp: select_def Let_def exclude_tags_def exclude_globs_def
      split: sum.splits if_splits)

text \<open>
  With two exclusion globs the brace set has two alternatives and the batched call
  resolves each of them: \<^verbatim>\<open>--not "*.test.ts" --not "*.md"\<close> excludes the test file.
\<close>

lemma two_exclusion_globs_resolve_each:
  "exclusionSet (node_world ts_project) [''*.test.ts'', ''*.md''] = [''a.test.ts''] \<and>
   exclusion_each (node_world ts_project) [''*.test.ts'', ''*.md''] = [''a.test.ts'']"
  by (simp add: exclusionSet_def exclusion_each_def exclusionPattern_def effectivePattern_def
      includes_slash_def world_fields ts_names glob_ev)

text \<open>
  C2, the code at the failing input. With the one exclusion glob \<^verbatim>\<open>*.test.ts\<close> the
  batched pattern is \<^verbatim>\<open>{**/*.test.ts}\<close>, a brace set with a single alternative, which
  brace expansion leaves as it is: the braces are then part of the names to match, and
  the call resolves nothing, where the glob resolved on its own gives the test file.
\<close>

theorem single_exclusion_glob_resolves_nothing:
  "exclusionPattern [''*.test.ts''] = ''{**/*.test.ts}'' \<and>
   braceExpand ''{**/*.test.ts}'' = [''{**/*.test.ts}''] \<and>
   exclusionSet (node_world ts_project) [''*.test.ts''] = [] \<and>
   exclusion_each (node_world ts_project) [''*.test.ts''] = [''a.test.ts'']"
proof -
  have b: "braceExpand ''{**/*.test.ts}'' = [''{**/*.test.ts}'']"
    by (simp add: braceExpand_def product_strings_def)
  show ?thesis
    by (simp add: b exclusionSet_def exclusion_each_def exclusionPattern_def effectivePattern_def
        includes_slash_def world_fields ts_names ts_glob ts_glob_braced)
qed

text \<open>
  C5, the code at the failing input. The run \<^verbatim>\<open>clop "*.ts" --not "*.ts"\<close> names the
  same pattern as inclusion and as exclusion glob. Both files match the pattern, and
  both are in the final selection: the one exclusion glob resolves nothing.
\<close>

theorem excluded_glob_stays_selected:
  "glob_sync (node_world ts_project) (effectivePattern ''*.ts'') resolve_options =
     [''a.ts'', ''a.test.ts''] \<and>
   select (node_world ts_project) (yargs_argv [''*.ts''] [''*.ts''] False False) =
     Inr ([''a.ts'', ''a.test.ts''], [])"
  by (simp add: select_ev allFiles_node_world ts_rules world_fields ts_names ts_glob
      ts_glob_braced)

subsection \<open>Hidden files\<close>











text \<open>
  The statement tells the two apart: for the pattern \<^verbatim>\<open>.cfg/*\<close> and the path
  \<^verbatim>\<open>.cfg/.secret\<close> there is no such assignment, since the part \<^verbatim>\<open>*\<close> would have
  to match the hidden name; and the resolution does not return the path.
\<close>

lemma wildcard_part_rejects_hidden_name:
  "\<not> (\<exists>parts. stretches (segments_of ''.cfg/*'') parts \<and>
        list_all2 (\<lambda>part name. part_matches part name \<and> (hidden name \<longrightarrow> dotted part))
          parts [''.cfg'', ''.secret''])"
proof
  assume "\<exists>parts. stretches (segments_of ''.cfg/*'') parts \<and>
        list_all2 (\<lambda>part name. part_matches part name \<and> (hidden name \<longrightarrow> dotted part))
          parts [''.cfg'', ''.secret'']"
  then obtain parts where s: "stretches (segments_of ''.cfg/*'') parts"
    and m: "list_all2 (\<lambda>part name. part_matches part name \<and> (hidden name \<longrightarrow> dotted part))
          parts [''.cfg'', ''.secret'']"
    by blast
  from s have "parts = [Name (map wild_of ''.cfg''), Name [WStar]]"
    by (auto simp: segments_of_def segment_of_def wild_of_def split: list.splits segment.splits)
  with m show False
    by (simp add: hidden_def literal_dot_def)
qed

lemma hidden_file_in_hidden_directory_not_resolved:
  "glob_sync (node_world [(''.cfg/.secret'', ''s''), (''.cfg/b.txt'', ''z'')])
     (effectivePattern ''.cfg/*'') resolve_options = [''.cfg/b.txt'']"
  by (simp add: world_fields effectivePattern_def includes_slash_def glob_ev)

subsection \<open>The order of the output\<close>

lemma txt_select:
  "select (node_world txt_project) (yargs_argv [''*.txt''] [] False False) =
     Inr ([''a.txt'', ''b.txt''], [])"
  by (simp add: select_ev allFiles_node_world txt_rules world_fields txt_names txt_glob)

lemma txt_select_reordered:
  "select (node_world txt_project_reordered) (yargs_argv [''*.txt''] [] False False) =
     Inr ([''b.txt'', ''a.txt''], [])"
  by (simp add: select_ev allFiles_node_world txt_rules world_fields txt_names txt_glob)

lemma txt_reads:
  "read_model txt_project ''a.txt'' = Inr ''hello''"
  "read_model txt_project ''b.txt'' = Inr (''tags: #draft'' @ [CHR 0x0A] @ ''world'')"
  "read_model txt_project_reordered ''a.txt'' = Inr ''hello''"
  "read_model txt_project_reordered ''b.txt'' = Inr (''tags: #draft'' @ [CHR 0x0A] @ ''world'')"
  "size_model txt_project ''a.txt'' = Inr 5"
  "size_model txt_project ''b.txt'' = Inr 18"
  "size_model txt_project_reordered ''a.txt'' = Inr 5"
  "size_model txt_project_reordered ''b.txt'' = Inr 18"
  by (simp_all add: fs_ev txt_project_def txt_project_reordered_def)

text \<open>
  Counterexample to C3. The same two files with the same contents, enumerated in the
  two possible orders, and the same arguments \<^verbatim>\<open>clop "*.txt"\<close>: the final list comes
  out in the order of the enumeration, once with \<^verbatim>\<open>b.txt\<close> before \<^verbatim>\<open>a.txt\<close>, and
  the two clipboards differ.
\<close>

theorem output_order_follows_enumeration:
  "set txt_project_reordered = set txt_project \<and>
   select (node_world txt_project) (yargs_argv [''*.txt''] [] False False) =
     Inr ([''a.txt'', ''b.txt''], []) \<and>
   select (node_world txt_project_reordered) (yargs_argv [''*.txt''] [] False False) =
     Inr ([''b.txt'', ''a.txt''], []) \<and>
   clipboard (main (node_world txt_project_reordered)
                (yargs_argv [''*.txt''] [] False False) []) \<noteq>
   clipboard (main (node_world txt_project) (yargs_argv [''*.txt''] [] False False) [])"
proof -
  have s: "set txt_project_reordered = set txt_project"
    by (auto simp: txt_project_def txt_project_reordered_def)
  have c: "clipboard (main (node_world txt_project_reordered)
                (yargs_argv [''*.txt''] [] False False) []) \<noteq>
   clipboard (main (node_world txt_project) (yargs_argv [''*.txt''] [] False False) [])"
    by (simp add: main_def txt_select txt_select_reordered world_fields txt_reads)
  from s c txt_select txt_select_reordered show ?thesis by simp
qed

text \<open>
  What does not depend on the order: the set of the final files and the list of the
  unmatched globs. The lemmas give the set of each stage of the selection.
\<close>

lemma fileHasTag_glob_update: "fileHasTag (w\<lparr>glob_sync := g\<rparr>) = fileHasTag w"
  by (simp add: fun_eq_iff fileHasTag_def fileHasTag_try_def split: sum.splits)

lemma hasAnyTag_glob_update: "hasAnyTag (w\<lparr>glob_sync := g\<rparr>) = hasAnyTag w"
  by (simp add: fun_eq_iff hasAnyTag_def fileHasTag_glob_update)

lemma ignore_rules_glob_update:
  "ignore_rules (w\<lparr>glob_sync := g\<rparr>) argv = ignore_rules w argv"
  by (simp add: ignore_rules_def Let_def split: sum.splits)

lemma fst_fold_include_glob:
  "set (fst (fold (include_glob w) gs st)) =
     set (fst st) \<union> (\<Union>p\<in>set gs. set (glob_sync w (effectivePattern p) resolve_options))"
  by (induction gs arbitrary: st) (auto simp: include_glob_def Let_def set_fold_Set_add)

lemma snd_fold_include_glob:
  "snd (fold (include_glob w) gs st) =
     filter (\<lambda>p. \<not> (p \<in> set gs \<and> set (glob_sync w (effectivePattern p) resolve_options) \<noteq> {}))
       (snd st)"
proof (induction gs arbitrary: st)
  case Nil
  show ?case by simp
next
  case (Cons g gs)
  have rem: "removeAll g xs = filter (\<lambda>p. p \<noteq> g) xs" for xs :: "string list"
    by (induction xs) auto
  have head: "snd (include_glob w g st) =
      filter (\<lambda>p. \<not> (p = g \<and> set (glob_sync w (effectivePattern p) resolve_options) \<noteq> {}))
        (snd st)"
    by (auto simp: include_glob_def Let_def Set_delete_def rem intro!: filter_cong)
  have "snd (fold (include_glob w) (g # gs) st) =
      snd (fold (include_glob w) gs (include_glob w g st))"
    by simp
  also have "\<dots> =
      filter (\<lambda>p. \<not> (p \<in> set gs \<and> set (glob_sync w (effectivePattern p) resolve_options) \<noteq> {}))
        (snd (include_glob w g st))"
    by (rule Cons)
  finally show ?case
    by (auto simp: head intro!: filter_cong)
qed

lemma set_include_tags:
  "set (include_tags w tags acc m) =
     set m \<union> {f \<in> set acc. tags \<noteq> [] \<and> hasAnyTag w f tags}"
proof -
  have "set (fold (\<lambda>file m. if P file then Set_add file m else m) fs m) =
      set m \<union> {f \<in> set fs. P f}"
    for P and fs :: "string list" and m
    by (induction fs arbitrary: m) (auto simp: set_Set_add)
  then show ?thesis by (auto simp: include_tags_def)
qed

lemma set_exclude_globs:
  "set (exclude_globs w gs fs) =
     {f \<in> set fs. \<not> (gs \<noteq> [] \<and> f \<in> set (glob_sync w (exclusionPattern gs) resolve_options))}"
  by (auto simp: exclude_globs_def exclusionSet_def)

lemma set_exclude_tags:
  "set (exclude_tags w ts fs) = {f \<in> set fs. \<not> (ts \<noteq> [] \<and> hasAnyTag w f ts)}"
  by (auto simp: exclude_tags_def)

lemma set_accessibleFiles:
  "set (accessibleFiles w ig) =
     {f \<in> set (glob_sync w ''**/*'' \<lparr>nodir = True, dot = True, ignore = None\<rparr>).
        \<not> ignore_ignores w ig (path_relative w (cwd w) f)}"
  by (auto simp: accessibleFiles_def allFiles_def)

lemma matched_files_glob_update:
  assumes "\<And>p opts. set (g p opts) = set (glob_sync w p opts)"
  shows "set (fst (matched_files (w\<lparr>glob_sync := g\<rparr>) gs ts ig)) =
         set (fst (matched_files w gs ts ig))"
    and "snd (matched_files (w\<lparr>glob_sync := g\<rparr>) gs ts ig) = snd (matched_files w gs ts ig)"
  by (simp_all add: matched_files_def Let_def set_include_tags fst_fold_include_glob
      snd_fold_include_glob set_accessibleFiles hasAnyTag_glob_update assms)

lemma set_glob_model:
  "set files = set files' \<Longrightarrow> set (glob_model files p opts) = set (glob_model files' p opts)"
  by (simp add: glob_model_def directories_of_def set_Set_from)

text \<open>
  C3 as amended. Two runs with the same arguments in worlds that differ only in the
  order in which glob returns the paths of each call end in the same way (the same
  exception, or a selection) and select the same set of files and the same unmatched
  globs. The order of the final list is not part of the statement: the code does not
  sort, and the counterexample above shows the order, and with it the buffer, following
  the enumeration.
\<close>

theorem final_set_independent_of_enumeration_order:
  assumes "\<forall>p opts. set (g p opts) = set (glob_sync w p opts)"
  shows "map_sum id (map_prod set id) (select (w\<lparr>glob_sync := g\<rparr>) argv) =
         map_sum id (map_prod set id) (select w argv)"
proof -
  have a: "set (g p opts) = set (glob_sync w p opts)" for p opts
    using assms by simp
  show ?thesis
    by (simp add: select_def Let_def set_exclude_tags set_exclude_globs hasAnyTag_glob_update
        ignore_rules_glob_update matched_files_glob_update [of g w, OF a] a split: sum.splits)
qed

text \<open>
  Witness of the amended C3: the two text files, with glob enumerating them in the
  other order.
\<close>

theorem final_set_independent_of_enumeration_order_witness:
  "(\<forall>p opts. set (glob_model (map fst txt_project_reordered) p opts) =
              set (glob_sync (node_world txt_project) p opts)) \<and>
   map_sum id (map_prod set id)
     (select ((node_world txt_project)\<lparr>glob_sync := glob_model (map fst txt_project_reordered)\<rparr>)
        (yargs_argv [''*.txt''] [] False False)) =
   Inr ({''a.txt'', ''b.txt''}, [])"
proof -
  have h: "\<forall>p opts. set (glob_model (map fst txt_project_reordered) p opts) =
              set (glob_sync (node_world txt_project) p opts)"
    by (auto simp: world_fields txt_names intro!: set_glob_model)
  from final_set_independent_of_enumeration_order [OF h] h show ?thesis
    by (simp add: txt_select)
qed

subsection \<open>How a file enters the selection\<close>

text \<open>
  For every behaviour of the libraries: a file of the final selection was returned by
  the resolution of an inclusion glob, a call without the option \<^verbatim>\<open>dot\<close>, or it
  is a file of the tag-scan enumeration, the one call with \<^verbatim>\<open>dot\<close>, in which an
  inclusion tag is found. The code has no other way to select a hidden file.
\<close>

lemma resolution_without_dot: "dot resolve_options = False"
  by (simp add: resolve_options_def)

lemma selected_by_glob_or_by_tag:
  assumes "select w argv = Inr (finalFiles, unmatchedGlobs)"
    and "property argv ''_'' = JArr positional"
    and "file \<in> set finalFiles"
  shows "(\<exists>pattern \<in> set positional. \<not> startsWith_plus pattern \<and>
            file \<in> set (glob_sync w (effectivePattern pattern) resolve_options)) \<or>
         (file \<in> set (allFiles w) \<and>
            hasAnyTag w file (map substring1 (filter startsWith_plus positional)))"
proof -
  from assms(1,2) obtain exclusionArgs ig where
    final: "finalFiles =
      exclude_tags w (map substring1 (filter startsWith_plus exclusionArgs))
        (exclude_globs w (filter (\<lambda>p. \<not> startsWith_plus p) exclusionArgs)
          (fst (matched_files w (filter (\<lambda>p. \<not> startsWith_plus p) positional)
                  (map substring1 (filter startsWith_plus positional)) ig)))"
    by (auto simp: select_def Let_def split: sum.splits)
  with assms(3) have "file \<in> set (fst (matched_files w
      (filter (\<lambda>p. \<not> startsWith_plus p) positional)
      (map substring1 (filter startsWith_plus positional)) ig))"
    by (auto simp: set_exclude_tags set_exclude_globs)
  then show ?thesis
    by (auto simp: matched_files_def Let_def set_include_tags fst_fold_include_glob
        set_accessibleFiles allFiles_def split: if_splits)
qed

subsection \<open>The empty selection\<close>

text \<open>
  C10. When the final selection is empty, the run prints the warning about unmatched
  globs if there are any, then the zero-match warning, and returns: the output has no
  progress line and no success line after it, nothing is written to standard error, the
  clipboard keeps the content it had, and the exit status is 0.
\<close>

theorem empty_selection_stops:
  "select w argv = Inr ([], unmatchedGlobs) \<Longrightarrow>
   main w argv clip =
     \<lparr>stdout = (if unmatchedGlobs = [] then [] else [UnmatchedPatterns unmatchedGlobs]) @
               [NoFilesMatched],
      stderr = [], clipboard = clip, exit_code = 0\<rparr>"
  by (simp add: main_def)

lemma backend_missingtag:
  "\<not> fileHasTag (node_world backend_project) ''.gitignore'' ''missingtag''"
  "\<not> fileHasTag (node_world backend_project) ''app.py'' ''missingtag''"
  by (simp_all add: tag_ev world_fields fs_ev backend_project_def)

lemma backend_glob_md:
  "glob_model [''.gitignore'', ''secrets/config.py'', ''app.py''] ''**/*.md'' resolve_options = []"
  by (simp add: glob_ev)

text \<open>
  Witness of C10: the run \<^verbatim>\<open>clop +missingtag "*.md"\<close> in the backend project, where
  no file carries the tag and no file matches the glob.
\<close>

theorem empty_selection_stops_witness:
  "select (node_world backend_project) (yargs_argv [''+missingtag'', ''*.md''] [] False False) =
     Inr ([], [''*.md'']) \<and>
   main (node_world backend_project) (yargs_argv [''+missingtag'', ''*.md''] [] False False)
     ''earlier'' =
     \<lparr>stdout = [UnmatchedPatterns [''*.md''], NoFilesMatched], stderr = [],
      clipboard = ''earlier'', exit_code = 0\<rparr>"
proof -
  have s: "select (node_world backend_project)
      (yargs_argv [''+missingtag'', ''*.md''] [] False False) = Inr ([], [''*.md''])"
    unfolding select_def backend_rules
    by (simp add: select_ev allFiles_node_world world_fields backend_names backend_ignored
        backend_missingtag backend_glob_md)
  from empty_selection_stops [OF s, of "''earlier''"] s show ?thesis by simp
qed

end
